theory Spec2Isabelle
  imports Main "HOL-Library.Word"
begin

unbundle bit_operations_syntax

section \<open>Data of the AMQP library as Connection.cpp reads and writes it\<close>

text \<open>
  \<open>amqp_bytes_t\<close> is a length and a pointer to that many bytes: a byte list.
  A \<open>std::string\<close> is a byte list too; where the source hands one to the library
  with \<open>c_str()\<close> the model hands over the string.
\<close>

type_synonym amqp_bytes = string

text \<open>
  \<open>amqp_field_value_t\<close> is a kind tag and a union; each constructor is one kind with
  the union member that kind selects. \<open>amqp_boolean_t\<close> is a C \<open>int\<close>. A table is
  its entries in order (\<open>num_entries\<close> is the length), an entry a key and a value.
\<close>

datatype amqp_field_value =
    FieldBoolean int
  | FieldI8 "8 word"
  | FieldU8 "8 word"
  | FieldI16 "16 word"
  | FieldU16 "16 word"
  | FieldI32 "32 word"
  | FieldU32 "32 word"
  | FieldI64 "64 word"
  | FieldU64 "64 word"
  | FieldF32 "32 word"
  | FieldF64 "64 word"
  | FieldDecimal "8 word" "32 word"
  | FieldUtf8 amqp_bytes
  | FieldArray "amqp_field_value list"
  | FieldTimestamp "64 word"
  | FieldTable "(amqp_bytes \<times> amqp_field_value) list"
  | FieldVoid
  | FieldBytes amqp_bytes

type_synonym amqp_table_entry = "amqp_bytes \<times> amqp_field_value"
type_synonym amqp_table = "amqp_table_entry list"

text \<open>
  \<open>amqp_rpc_reply_t\<close>: the reply type (a C enum, so any \<open>int\<close> can sit there), the
  method of a server exception (its id and its decoded payload, kept as bytes), and the
  library's error code.
\<close>

record amqp_rpc_reply =
  reply_type :: int
  reply_id :: "32 word"
  reply_decoded :: amqp_bytes
  library_error :: int

definition AMQP_RESPONSE_NONE :: int where "AMQP_RESPONSE_NONE = 0"
definition AMQP_RESPONSE_NORMAL :: int where "AMQP_RESPONSE_NORMAL = 1"
definition AMQP_RESPONSE_LIBRARY_EXCEPTION :: int where "AMQP_RESPONSE_LIBRARY_EXCEPTION = 2"
definition AMQP_RESPONSE_SERVER_EXCEPTION :: int where "AMQP_RESPONSE_SERVER_EXCEPTION = 3"

text \<open>
  Everything the source throws. \<open>AmqpLibraryException\<close> carries the status and the
  context string given to \<open>CreateException\<close> (empty in the one-argument call),
  \<open>AmqpResponseLibraryException\<close> and \<open>AmqpException\<close> the reply they were made from.
  \<open>UndefinedUnionRead\<close> is not an exception of the source: it marks the read of the
  \<open>bytes\<close> member of a field value whose kind is not a byte string, for which C
  defines no result.
\<close>

datatype exception =
    BadAlloc
  | BadUriException
  | RuntimeError string
  | LogicError string
  | BadLexicalCast
  | AmqpLibraryException int string
  | AmqpResponseLibraryException amqp_rpc_reply string
  | AmqpException amqp_rpc_reply
  | UndefinedUnionRead

section \<open>Connection::ComputeBrokerVersion\<close>

definition amqp_cstring_bytes :: "string \<Rightarrow> amqp_bytes" where
  "amqp_cstring_bytes s = s"

definition bytesEqual :: "amqp_bytes \<Rightarrow> amqp_bytes \<Rightarrow> bool" where
  "bytesEqual r l =
     (if length r = length l
      then (if take (length r) r = take (length r) l then True else False)
      else False)"

text \<open>
  \<open>boost::split(out, s, pred)\<close> with the default \<open>token_compress_off\<close>: every
  separator ends a token, so a string with \<open>n\<close> separators gives \<open>n + 1\<close> tokens and
  the empty string gives one empty token.
\<close>

definition is_any_of :: "string \<Rightarrow> char \<Rightarrow> bool" where
  "is_any_of seps c = (c \<in> set seps)"

fun boost_split :: "(char \<Rightarrow> bool) \<Rightarrow> string \<Rightarrow> string list" where
  "boost_split p [] = [[]]"
| "boost_split p (c # cs) =
     (if p c then [] # boost_split p cs
      else (case boost_split p cs of
              [] \<Rightarrow> [[c]]
            | t # ts \<Rightarrow> (c # t) # ts))"

text \<open>
  \<open>boost::lexical_cast<boost::uint32_t>(std::string)\<close> in the classic locale: an
  optional leading \<open>+\<close> or \<open>-\<close>, then at least one decimal digit and nothing else; the
  digits must denote a value of at most \<open>2^32 - 1\<close> (leading zeros are allowed); with
  \<open>-\<close> the value is negated modulo \<open>2^32\<close>. Anything else throws
  \<open>bad_lexical_cast\<close>.
\<close>

definition is_digit :: "char \<Rightarrow> bool" where
  "is_digit c = (48 \<le> (of_char c :: nat) \<and> (of_char c :: nat) \<le> 57)"

definition digits_value :: "string \<Rightarrow> nat" where
  "digits_value ds = foldl (\<lambda>a c. a * 10 + ((of_char c :: nat) - 48)) 0 ds"

definition lcast_ret_unsigned :: "string \<Rightarrow> nat option" where
  "lcast_ret_unsigned ds =
     (if ds = [] then None
      else if \<not> list_all is_digit ds then None
      else if 4294967295 < digits_value ds then None
      else Some (digits_value ds))"

definition lexical_cast_uint32 :: "string \<Rightarrow> exception + 32 word" where
  "lexical_cast_uint32 s =
     (case s of
        [] \<Rightarrow> Inl BadLexicalCast
      | c # cs \<Rightarrow>
          (let has_minus = (c = CHR ''-'');
               digits = (if has_minus \<or> c = CHR ''+'' then cs else s)
           in case lcast_ret_unsigned digits of
                None \<Rightarrow> Inl BadLexicalCast
              | Some v \<Rightarrow> Inr (if has_minus then 0 - of_nat v else of_nat v)))"

text \<open>
  The loop over the entries: the first entry whose key equals \<open>"version"\<close>, or
  \<open>NULL\<close> (\<open>None\<close>).
\<close>

fun find_version_entry :: "amqp_bytes \<Rightarrow> amqp_table \<Rightarrow> amqp_table_entry option" where
  "find_version_entry version [] = None"
| "find_version_entry version (e # es) =
     (if bytesEqual (fst e) version then Some e else find_version_entry version es)"

text \<open>
  \<open>version_entry->value.value.bytes\<close>: the byte-string member of the union, read
  whatever the kind says.
\<close>

fun value_bytes :: "amqp_field_value \<Rightarrow> amqp_bytes option" where
  "value_bytes (FieldUtf8 b) = Some b"
| "value_bytes (FieldBytes b) = Some b"
| "value_bytes _ = None"

definition pack_version :: "32 word \<Rightarrow> 32 word \<Rightarrow> 32 word \<Rightarrow> 32 word" where
  "pack_version version_major version_minor version_patch =
     (push_bit 16 (version_major AND 0xFF) OR push_bit 8 (version_minor AND 0xFF))
       OR (version_patch AND 0xFF)"

text \<open>
  \<open>properties\<close> is the table \<open>amqp_get_server_properties(state)\<close> returns.
\<close>

definition ComputeBrokerVersion :: "amqp_table \<Rightarrow> exception + 32 word" where
  "ComputeBrokerVersion properties =
     (let version = amqp_cstring_bytes ''version'' in
      case find_version_entry version properties of
        None \<Rightarrow> Inr 0
      | Some version_entry \<Rightarrow>
          (case value_bytes (snd version_entry) of
             None \<Rightarrow> Inl UndefinedUnionRead
           | Some version_string \<Rightarrow>
               (let version_components = boost_split (is_any_of ''.'') version_string in
                if length version_components \<noteq> 3 then Inr 0
                else
                  (case lexical_cast_uint32 (version_components ! 0) of
                     Inl e \<Rightarrow> Inl e
                   | Inr version_major \<Rightarrow>
                       (case lexical_cast_uint32 (version_components ! 1) of
                          Inl e \<Rightarrow> Inl e
                        | Inr version_minor \<Rightarrow>
                            (case lexical_cast_uint32 (version_components ! 2) of
                               Inl e \<Rightarrow> Inl e
                             | Inr version_patch \<Rightarrow>
                                 Inr (pack_version version_major version_minor
                                        version_patch)))))))"

section \<open>The library as the environment of the connection code\<close>

text \<open>
  \<open>amqp_connection_info\<close> of the library; \<open>ssl\<close> is an \<open>amqp_boolean_t\<close>.
\<close>

record amqp_connection_info =
  info_user :: string
  info_password :: string
  info_host :: string
  info_vhost :: string
  info_port :: int
  info_ssl :: int

datatype amqp_sasl_method_enum =
    AMQP_SASL_METHOD_UNDEFINED
  | AMQP_SASL_METHOD_PLAIN
  | AMQP_SASL_METHOD_EXTERNAL

text \<open>
  What the library answers to each call the connection code makes. A pointer result is
  \<open>True\<close> when it is not \<open>NULL\<close>; \<open>lib_socket_open\<close> is told whether the socket it
  is given is one. \<open>lib_parse_url\<close> gets the URI and the structure to fill and returns
  the status and the filled structure. The variadic tail of
  \<open>amqp_login_with_properties\<close> is a list.
\<close>

record amqp_library =
  lib_default_connection_info :: amqp_connection_info
  lib_parse_url :: "string \<Rightarrow> amqp_connection_info \<Rightarrow> int \<times> amqp_connection_info"
  lib_new_connection :: bool
  lib_tcp_socket_new :: bool
  lib_ssl_socket_new :: bool
  lib_ssl_socket_set_cacert :: "string \<Rightarrow> int"
  lib_ssl_socket_set_key :: "string \<Rightarrow> string \<Rightarrow> int"
  lib_socket_open :: "bool \<Rightarrow> string \<Rightarrow> int \<Rightarrow> int"
  lib_login_with_properties ::
    "string \<Rightarrow> int \<Rightarrow> int \<Rightarrow> int \<Rightarrow> amqp_table \<Rightarrow> amqp_sasl_method_enum \<Rightarrow> string list
       \<Rightarrow> amqp_rpc_reply"
  lib_get_server_properties :: amqp_table

text \<open>
  The calls on the connection and its socket, in the order they are made: the trace a
  construction leaves behind. Parsing a URI touches neither and is not recorded.
\<close>

datatype lib_call =
    Call_amqp_new_connection
  | Call_amqp_tcp_socket_new
  | Call_amqp_ssl_socket_new
  | Call_amqp_ssl_socket_set_verify_peer bool
  | Call_amqp_ssl_socket_set_verify_hostname bool
  | Call_amqp_ssl_socket_set_verify bool
  | Call_amqp_ssl_socket_set_cacert string
  | Call_amqp_ssl_socket_set_key string string
  | Call_amqp_socket_open bool string int
  | Call_amqp_login_with_properties string int int int amqp_table amqp_sasl_method_enum
      "string list"
  | Call_amqp_get_server_properties
  | Call_amqp_connection_close int
  | Call_amqp_destroy_connection

text \<open>
  The two compile-time switches of Connection.cpp.
\<close>

record build_config =
  SAC_SSL_SUPPORT_ENABLED :: bool
  AMQP_VERSION :: nat

section \<open>The Connection class\<close>

text \<open>
  \<open>m_connection\<close> is \<open>True\<close> when the pointer is not \<open>NULL\<close>;
  \<open>m_brokerVersion\<close> is \<open>None\<close> until \<open>DoLogin\<close> assigns it.
\<close>

record Connection =
  m_connection :: bool
  m_is_connected :: bool
  m_brokerVersion :: "32 word option"

record SSLConnectionParams =
  path_to_ca_cert :: string
  path_to_client_key :: string
  path_to_client_cert :: string
  verify_hostname :: bool

definition SetIsConnected :: "Connection \<Rightarrow> bool \<Rightarrow> Connection" where
  "SetIsConnected self state = self\<lparr>m_is_connected := state\<rparr>"

definition GetBrokerVersion :: "Connection \<Rightarrow> 32 word option" where
  "GetBrokerVersion self = m_brokerVersion self"

definition CheckForError :: "int \<Rightarrow> exception + unit" where
  "CheckForError ret = (if ret < 0 then Inl (AmqpLibraryException ret []) else Inr ())"

text \<open>
  Modelled from the spec: \<open>AmqpException::Throw\<close> is declared in AmqpException.h and
  defined outside Connection.cpp. The spec's reply classifier says that a server fault
  raises the protocol exception carrying the broker's structured fault, so the call
  always throws, and what it throws carries the reply.
\<close>

definition AmqpException_Throw :: "amqp_rpc_reply \<Rightarrow> exception" where
  "AmqpException_Throw reply = AmqpException reply"

definition CheckRpcReply :: "amqp_rpc_reply \<Rightarrow> exception + unit" where
  "CheckRpcReply reply =
     (if reply_type reply = AMQP_RESPONSE_NORMAL then Inr ()
      else if reply_type reply = AMQP_RESPONSE_LIBRARY_EXCEPTION
      then Inl (AmqpResponseLibraryException reply [])
      else Inl (AmqpException_Throw reply))"

definition BROKER_HEARTBEAT :: int where
  "BROKER_HEARTBEAT = 0"

definition DoLogin ::
  "amqp_library \<Rightarrow> Connection \<Rightarrow> string \<Rightarrow> string \<Rightarrow> string \<Rightarrow> int
     \<Rightarrow> (exception + Connection) \<times> lib_call list" where
  "DoLogin lib self username password vhost frame_max =
     (let capabilties = [(amqp_cstring_bytes ''consumer_cancel_notify'', FieldBoolean 1)];
          capability_entry = (amqp_cstring_bytes ''capabilities'', FieldTable capabilties);
          client_properties = [capability_entry];
          login = Call_amqp_login_with_properties vhost 0 frame_max BROKER_HEARTBEAT
                    client_properties AMQP_SASL_METHOD_PLAIN [username, password];
          reply = lib_login_with_properties lib vhost 0 frame_max BROKER_HEARTBEAT
                    client_properties AMQP_SASL_METHOD_PLAIN [username, password]
      in case CheckRpcReply reply of
           Inl e \<Rightarrow> (Inl e, [login])
         | Inr _ \<Rightarrow>
             (case ComputeBrokerVersion (lib_get_server_properties lib) of
                Inl e \<Rightarrow> (Inl e, [login, Call_amqp_get_server_properties])
              | Inr v \<Rightarrow>
                  (Inr (self\<lparr>m_brokerVersion := Some v\<rparr>),
                   [login, Call_amqp_get_server_properties])))"

subsection \<open>The plain constructor\<close>

text \<open>
  The body of the \<open>try\<close> block. The socket is not compared with \<open>NULL\<close> before it
  is opened.
\<close>

definition Connection_try ::
  "amqp_library \<Rightarrow> Connection \<Rightarrow> string \<Rightarrow> int \<Rightarrow> string \<Rightarrow> string \<Rightarrow> string \<Rightarrow> int
     \<Rightarrow> (exception + Connection) \<times> lib_call list" where
  "Connection_try lib self host port username password vhost frame_max =
     (let socket = lib_tcp_socket_new lib;
          sock = lib_socket_open lib socket host port;
          calls = [Call_amqp_tcp_socket_new, Call_amqp_socket_open socket host port]
      in case CheckForError sock of
           Inl e \<Rightarrow> (Inl e, calls)
         | Inr _ \<Rightarrow>
             (case DoLogin lib self username password vhost frame_max of
                (r, calls') \<Rightarrow> (r, calls @ calls')))"

definition Connection_ctor ::
  "amqp_library \<Rightarrow> string \<Rightarrow> int \<Rightarrow> string \<Rightarrow> string \<Rightarrow> string \<Rightarrow> int
     \<Rightarrow> (exception + Connection) \<times> lib_call list" where
  "Connection_ctor lib host port username password vhost frame_max =
     (let self = \<lparr>m_connection = lib_new_connection lib, m_is_connected = False,
                  m_brokerVersion = None\<rparr>
      in if \<not> m_connection self then (Inl BadAlloc, [Call_amqp_new_connection])
         else
           (case Connection_try lib self host port username password vhost frame_max of
              (Inl e, calls) \<Rightarrow>
                (Inl e, Call_amqp_new_connection # calls @ [Call_amqp_destroy_connection])
            | (Inr self', calls) \<Rightarrow>
                (Inr (SetIsConnected self' True), Call_amqp_new_connection # calls)))"

subsection \<open>The constructor taking SSLConnectionParams\<close>

text \<open>
  The end of the \<open>try\<close> block, after the certificates: open the socket, then log in.
  The exception for a failed open reuses the client-certificate message.
\<close>

definition Connection_ssl_open ::
  "amqp_library \<Rightarrow> Connection \<Rightarrow> string \<Rightarrow> int \<Rightarrow> string \<Rightarrow> string \<Rightarrow> string \<Rightarrow> int
     \<Rightarrow> (exception + Connection) \<times> lib_call list" where
  "Connection_ssl_open lib self host port username password vhost frame_max =
     (let status = lib_socket_open lib True host port;
          calls = [Call_amqp_socket_open True host port]
      in if status \<noteq> 0
         then (Inl (AmqpLibraryException status
                      ''Error setting client certificate for socket''), calls)
         else
           (case DoLogin lib self username password vhost frame_max of
              (r, calls') \<Rightarrow> (r, calls @ calls')))"

text \<open>
  The body of the \<open>try\<close> block: the CA certificate, the client certificate and key
  when both paths are non-empty, then the rest.
\<close>

definition Connection_ssl_try ::
  "amqp_library \<Rightarrow> Connection \<Rightarrow> string \<Rightarrow> int \<Rightarrow> string \<Rightarrow> string \<Rightarrow> string \<Rightarrow> int
     \<Rightarrow> SSLConnectionParams \<Rightarrow> (exception + Connection) \<times> lib_call list" where
  "Connection_ssl_try lib self host port username password vhost frame_max ssl_params =
     (let status = lib_ssl_socket_set_cacert lib (path_to_ca_cert ssl_params);
          calls = [Call_amqp_ssl_socket_set_cacert (path_to_ca_cert ssl_params)]
      in if status \<noteq> 0
         then (Inl (AmqpLibraryException status ''Error setting CA certificate for socket''),
               calls)
         else if path_to_client_key ssl_params \<noteq> [] \<and> path_to_client_cert ssl_params \<noteq> []
         then
           (let status = lib_ssl_socket_set_key lib (path_to_client_cert ssl_params)
                           (path_to_client_key ssl_params);
                calls = calls @ [Call_amqp_ssl_socket_set_key (path_to_client_cert ssl_params)
                                   (path_to_client_key ssl_params)]
            in if status \<noteq> 0
               then (Inl (AmqpLibraryException status
                            ''Error setting client certificate for socket''), calls)
               else
                 (case Connection_ssl_open lib self host port username password vhost
                         frame_max of
                    (r, calls') \<Rightarrow> (r, calls @ calls')))
         else
           (case Connection_ssl_open lib self host port username password vhost frame_max of
              (r, calls') \<Rightarrow> (r, calls @ calls')))"

text \<open>
  The calls that set the verification policy, chosen by the library version.
\<close>

definition set_verify_calls :: "build_config \<Rightarrow> SSLConnectionParams \<Rightarrow> lib_call list" where
  "set_verify_calls cfg ssl_params =
     (if AMQP_VERSION cfg \<ge> 0x00080001
      then [Call_amqp_ssl_socket_set_verify_peer (verify_hostname ssl_params),
            Call_amqp_ssl_socket_set_verify_hostname (verify_hostname ssl_params)]
      else [Call_amqp_ssl_socket_set_verify (verify_hostname ssl_params)])"

definition Connection_ctor_ssl ::
  "build_config \<Rightarrow> amqp_library \<Rightarrow> string \<Rightarrow> int \<Rightarrow> string \<Rightarrow> string \<Rightarrow> string \<Rightarrow> int
     \<Rightarrow> SSLConnectionParams \<Rightarrow> (exception + Connection) \<times> lib_call list" where
  "Connection_ctor_ssl cfg lib host port username password vhost frame_max ssl_params =
     (if SAC_SSL_SUPPORT_ENABLED cfg then
        (let self = \<lparr>m_connection = lib_new_connection lib, m_is_connected = False,
                     m_brokerVersion = None\<rparr>
         in if \<not> m_connection self then (Inl BadAlloc, [Call_amqp_new_connection])
            else
              (let socket = lib_ssl_socket_new lib;
                   calls0 = [Call_amqp_new_connection, Call_amqp_ssl_socket_new]
               in if \<not> socket then (Inl BadAlloc, calls0)
                  else
                    (let calls1 = calls0 @ set_verify_calls cfg ssl_params
                     in case Connection_ssl_try lib self host port username password vhost
                               frame_max ssl_params of
                          (Inl e, calls) \<Rightarrow>
                            (Inl e, calls1 @ calls @ [Call_amqp_destroy_connection])
                        | (Inr self', calls) \<Rightarrow>
                            (Inr (SetIsConnected self' True), calls1 @ calls))))
      else
        (Inl (LogicError ''SSL support has not been compiled into SimpleAmqpClient''), []))"

subsection \<open>The destructor\<close>

definition AMQP_REPLY_SUCCESS :: int where
  "AMQP_REPLY_SUCCESS = 200"

definition Connection_dtor :: "Connection \<Rightarrow> lib_call list" where
  "Connection_dtor self =
     [Call_amqp_connection_close AMQP_REPLY_SUCCESS, Call_amqp_destroy_connection]"

subsection \<open>The factory functions\<close>

definition Create ::
  "amqp_library \<Rightarrow> string \<Rightarrow> int \<Rightarrow> string \<Rightarrow> string \<Rightarrow> string \<Rightarrow> int
     \<Rightarrow> (exception + Connection) \<times> lib_call list" where
  "Create lib host port username password vhost frame_max =
     Connection_ctor lib host port username password vhost frame_max"

definition CreateSecure ::
  "build_config \<Rightarrow> amqp_library \<Rightarrow> string \<Rightarrow> string \<Rightarrow> string \<Rightarrow> string \<Rightarrow> int \<Rightarrow> string
     \<Rightarrow> string \<Rightarrow> string \<Rightarrow> int \<Rightarrow> bool \<Rightarrow> (exception + Connection) \<times> lib_call list" where
  "CreateSecure cfg lib ca_cert host client_key client_cert port username password vhost
     frame_max verify =
     (let ssl_params = \<lparr>path_to_ca_cert = ca_cert, path_to_client_key = client_key,
                        path_to_client_cert = client_cert, verify_hostname = verify\<rparr>
      in Connection_ctor_ssl cfg lib host port username password vhost frame_max ssl_params)"

definition CreateFromUri ::
  "amqp_library \<Rightarrow> string \<Rightarrow> int \<Rightarrow> (exception + Connection) \<times> lib_call list" where
  "CreateFromUri lib uri frame_max =
     (let info0 = lib_default_connection_info lib;
          uri_dup = uri
      in case lib_parse_url lib uri_dup info0 of
           (rc, info) \<Rightarrow>
             if 0 \<noteq> rc then (Inl BadUriException, [])
             else Create lib (info_host info) (info_port info) (info_user info)
                    (info_password info) (info_vhost info) frame_max)"

definition CreateSecureFromUri ::
  "build_config \<Rightarrow> amqp_library \<Rightarrow> string \<Rightarrow> string \<Rightarrow> string \<Rightarrow> string \<Rightarrow> bool \<Rightarrow> int
     \<Rightarrow> (exception + Connection) \<times> lib_call list" where
  "CreateSecureFromUri cfg lib uri ca_cert client_key client_cert verify frame_max =
     (let info0 = lib_default_connection_info lib;
          uri_dup = uri
      in case lib_parse_url lib uri_dup info0 of
           (rc, info) \<Rightarrow>
             if 0 \<noteq> rc then (Inl BadUriException, [])
             else if info_ssl info \<noteq> 0
             then CreateSecure cfg lib ca_cert (info_host info) client_key client_cert
                    (info_port info) (info_user info) (info_password info) (info_vhost info)
                    frame_max verify
             else (Inl (RuntimeError
                          ''CreateSecureFromUri only supports SSL-enabled URIs.''), []))"

section \<open>Reading a trace\<close>

text \<open>
  Which calls of a trace are logins, which table a login carries, which calls belong to
  the TLS socket, and which one loads the client certificate and key.
\<close>

fun is_login_call :: "lib_call \<Rightarrow> bool" where
  "is_login_call (Call_amqp_login_with_properties _ _ _ _ _ _ _) = True"
| "is_login_call _ = False"

fun login_properties :: "lib_call \<Rightarrow> amqp_table option" where
  "login_properties (Call_amqp_login_with_properties _ _ _ _ properties _ _) = Some properties"
| "login_properties _ = None"

fun is_ssl_call :: "lib_call \<Rightarrow> bool" where
  "is_ssl_call Call_amqp_ssl_socket_new = True"
| "is_ssl_call (Call_amqp_ssl_socket_set_verify_peer _) = True"
| "is_ssl_call (Call_amqp_ssl_socket_set_verify_hostname _) = True"
| "is_ssl_call (Call_amqp_ssl_socket_set_verify _) = True"
| "is_ssl_call (Call_amqp_ssl_socket_set_cacert _) = True"
| "is_ssl_call (Call_amqp_ssl_socket_set_key _ _) = True"
| "is_ssl_call _ = False"

fun is_set_key_call :: "lib_call \<Rightarrow> bool" where
  "is_set_key_call (Call_amqp_ssl_socket_set_key _ _) = True"
| "is_set_key_call _ = False"

text \<open>
  The login call \<open>DoLogin\<close> makes, written out.
\<close>

definition login_call :: "string \<Rightarrow> int \<Rightarrow> string \<Rightarrow> string \<Rightarrow> lib_call" where
  "login_call vhost frame_max username password =
     Call_amqp_login_with_properties vhost 0 frame_max 0
       [(''capabilities'', FieldTable [(''consumer_cancel_notify'', FieldBoolean 1)])]
       AMQP_SASL_METHOD_PLAIN [username, password]"

section \<open>A broker that accepts everything, and two builds\<close>

text \<open>
  The library's defaults for \<open>amqp_connection_info\<close>, a URI parser that knows one
  plain and one TLS URI of the same host, and a library in which every allocation and
  every call succeeds and whose broker announces version 3.8.2.
\<close>

definition default_connection_info :: amqp_connection_info where
  "default_connection_info =
     \<lparr>info_user = ''guest'', info_password = ''guest'', info_host = ''localhost'',
      info_vhost = ''/'', info_port = 5672, info_ssl = 0\<rparr>"

definition sample_parse_url :: "string \<Rightarrow> amqp_connection_info \<Rightarrow> int \<times> amqp_connection_info" where
  "sample_parse_url uri parsed =
     (if uri = ''amqp://broker.example''
      then (0, parsed\<lparr>info_host := ''broker.example''\<rparr>)
      else if uri = ''amqps://broker.example''
      then (0, parsed\<lparr>info_host := ''broker.example'', info_port := 5671, info_ssl := 1\<rparr>)
      else (- 8, parsed))"

definition normal_reply :: amqp_rpc_reply where
  "normal_reply =
     \<lparr>reply_type = AMQP_RESPONSE_NORMAL, reply_id = 0, reply_decoded = [], library_error = 0\<rparr>"

definition accepting_library :: amqp_library where
  "accepting_library =
     \<lparr>lib_default_connection_info = default_connection_info,
      lib_parse_url = sample_parse_url,
      lib_new_connection = True,
      lib_tcp_socket_new = True,
      lib_ssl_socket_new = True,
      lib_ssl_socket_set_cacert = (\<lambda>_. 0),
      lib_ssl_socket_set_key = (\<lambda>_ _. 0),
      lib_socket_open = (\<lambda>_ _ _. 0),
      lib_login_with_properties = (\<lambda>_ _ _ _ _ _ _. normal_reply),
      lib_get_server_properties =
        [(''product'', FieldUtf8 ''RabbitMQ''), (''version'', FieldUtf8 ''3.8.2'')]\<rparr>"

definition tls_build :: build_config where
  "tls_build = \<lparr>SAC_SSL_SUPPORT_ENABLED = True, AMQP_VERSION = 0x00080001\<rparr>"

definition plain_build :: build_config where
  "plain_build = \<lparr>SAC_SSL_SUPPORT_ENABLED = False, AMQP_VERSION = 0x00080001\<rparr>"

section \<open>Facts about the version computation\<close>

lemma bytesEqual_iff: "bytesEqual r l \<longleftrightarrow> r = l"
  by (auto simp: bytesEqual_def)

lemma find_version_entry_absent:
  "list_all (\<lambda>e. fst e \<noteq> v) t \<Longrightarrow> find_version_entry v t = None"
  by (induction t) (simp_all add: bytesEqual_iff)

lemma find_version_entry_first:
  "list_all (\<lambda>e. fst e \<noteq> v) pre \<Longrightarrow> find_version_entry v (pre @ (v, x) # post) = Some (v, x)"
  by (induction pre) (simp_all add: bytesEqual_iff)

lemma boost_split_not_Nil: "boost_split p s \<noteq> []"
  by (induction s) (auto split: list.splits)

lemma length_boost_split: "length (boost_split p s) = Suc (length (filter p s))"
  by (induction s) (auto split: list.splits)

lemma ComputeBrokerVersion_absent:
  "list_all (\<lambda>e. fst e \<noteq> ''version'') properties \<Longrightarrow> ComputeBrokerVersion properties = Inr 0"
  by (simp add: ComputeBrokerVersion_def amqp_cstring_bytes_def find_version_entry_absent)

lemma ComputeBrokerVersion_not_three:
  assumes "list_all (\<lambda>e. fst e \<noteq> ''version'') pre" and "value_bytes v = Some s"
    and "length (boost_split (is_any_of ''.'') s) \<noteq> 3"
  shows "ComputeBrokerVersion (pre @ (''version'', v) # post) = Inr 0"
  using assms
  by (simp add: ComputeBrokerVersion_def amqp_cstring_bytes_def find_version_entry_first
      Let_def)

lemma ComputeBrokerVersion_three:
  assumes "list_all (\<lambda>e. fst e \<noteq> ''version'') pre" and "value_bytes v = Some s"
    and "boost_split (is_any_of ''.'') s = [a, b, c]"
  shows "ComputeBrokerVersion (pre @ (''version'', v) # post) =
     (case lexical_cast_uint32 a of Inl e \<Rightarrow> Inl e
        | Inr ma \<Rightarrow> (case lexical_cast_uint32 b of Inl e \<Rightarrow> Inl e
        | Inr mi \<Rightarrow> (case lexical_cast_uint32 c of Inl e \<Rightarrow> Inl e
        | Inr pa \<Rightarrow> Inr (pack_version ma mi pa))))"
  using assms
  by (simp add: ComputeBrokerVersion_def amqp_cstring_bytes_def find_version_entry_first
      Let_def split: sum.splits)

lemma lexical_cast_uint32_cases:
  "lexical_cast_uint32 s = Inl BadLexicalCast \<or> (\<exists>w. lexical_cast_uint32 s = Inr w)"
  by (auto simp: lexical_cast_uint32_def Let_def split: list.splits option.splits)


lemma boost_split_3_8_2: "boost_split (is_any_of ''.'') ''3.8.2'' = [''3'', ''8'', ''2'']"
  by (simp add: is_any_of_def)

lemma boost_split_3_8_2_1:
  "boost_split (is_any_of ''.'') ''3.8.2.1'' = [''3'', ''8'', ''2'', ''1'']"
  by (simp add: is_any_of_def)

lemma boost_split_999_0_0: "boost_split (is_any_of ''.'') ''999.0.0'' = [''999'', ''0'', ''0'']"
  by (simp add: is_any_of_def)

lemma boost_split_3_x_2: "boost_split (is_any_of ''.'') ''3.x.2'' = [''3'', ''x'', ''2'']"
  by (simp add: is_any_of_def)

lemmas lexical_cast_unfold =
  lexical_cast_uint32_def lcast_ret_unsigned_def is_digit_def digits_value_def

lemma lexical_cast_0: "lexical_cast_uint32 ''0'' = Inr 0"
  by (simp add: lexical_cast_unfold)

lemma lexical_cast_1: "lexical_cast_uint32 ''1'' = Inr 1"
  by (simp add: lexical_cast_unfold)

lemma lexical_cast_2: "lexical_cast_uint32 ''2'' = Inr 2"
  by (simp add: lexical_cast_unfold)

lemma lexical_cast_3: "lexical_cast_uint32 ''3'' = Inr 3"
  by (simp add: lexical_cast_unfold)

lemma lexical_cast_8: "lexical_cast_uint32 ''8'' = Inr 8"
  by (simp add: lexical_cast_unfold)

lemma lexical_cast_999: "lexical_cast_uint32 ''999'' = Inr 999"
  by (simp add: lexical_cast_unfold)

lemma lexical_cast_x: "lexical_cast_uint32 ''x'' = Inl BadLexicalCast"
  by (simp add: lexical_cast_unfold)

lemma pack_version_3_8_2: "pack_version 3 8 2 = 0x030802"
  by (simp add: pack_version_def)

lemma pack_version_999_0_0: "pack_version 999 0 0 = 0xE70000"
  by (simp add: pack_version_def)

lemma ComputeBrokerVersion_3_8_2:
  "ComputeBrokerVersion [(''version'', FieldUtf8 ''3.8.2'')] = Inr 0x030802"
  using ComputeBrokerVersion_three [of "[]" "FieldUtf8 ''3.8.2''" "''3.8.2''" _ _ _ "[]",
      OF _ _ boost_split_3_8_2]
  by (simp add: lexical_cast_3 lexical_cast_8 lexical_cast_2 pack_version_3_8_2)

lemma ComputeBrokerVersion_3_8_2_1:
  "ComputeBrokerVersion [(''version'', FieldUtf8 ''3.8.2.1'')] = Inr 0"
  using ComputeBrokerVersion_not_three [of "[]" "FieldUtf8 ''3.8.2.1''" "''3.8.2.1''" "[]"]
  unfolding boost_split_3_8_2_1 by simp

lemma ComputeBrokerVersion_999_0_0:
  "ComputeBrokerVersion [(''version'', FieldUtf8 ''999.0.0'')] = Inr 0xE70000"
  using ComputeBrokerVersion_three [of "[]" "FieldUtf8 ''999.0.0''" "''999.0.0''" _ _ _ "[]",
      OF _ _ boost_split_999_0_0]
  by (simp add: lexical_cast_999 lexical_cast_0 pack_version_999_0_0)

text \<open>
  Claim C4. A version string of three components that all parse is packed as
  \<open>(major & 0xFF) << 16 | (minor & 0xFF) << 8 | (patch & 0xFF)\<close>, taken from the
  first entry whose key is \<open>version\<close>. \<open>3.8.2\<close> gives \<open>0x030802\<close>; the four
  components of \<open>3.8.2.1\<close> give 0; in \<open>999.0.0\<close> the major component is cut to its
  low eight bits by the mask \<open>0xFF\<close>, which leaves \<open>0xE7\<close> in the top byte of the
  result; a table with no key equal to \<open>version\<close>, byte for byte, gives 0.
\<close>

theorem ComputeBrokerVersion_packing:
  "(list_all (\<lambda>e. fst e \<noteq> ''version'') pre \<and> value_bytes v = Some s
      \<and> boost_split (is_any_of ''.'') s = [a, b, c]
      \<and> lexical_cast_uint32 a = Inr version_major
      \<and> lexical_cast_uint32 b = Inr version_minor
      \<and> lexical_cast_uint32 c = Inr version_patch
    \<longrightarrow> ComputeBrokerVersion (pre @ (''version'', v) # post) =
          Inr ((push_bit 16 (version_major AND 0xFF) OR push_bit 8 (version_minor AND 0xFF))
                 OR (version_patch AND 0xFF)))
   \<and> ComputeBrokerVersion [(''version'', FieldUtf8 ''3.8.2'')] = Inr 0x030802
   \<and> ComputeBrokerVersion [(''version'', FieldUtf8 ''3.8.2.1'')] = Inr 0
   \<and> ComputeBrokerVersion [(''version'', FieldUtf8 ''999.0.0'')]
        = Inr (push_bit 16 (999 AND 0xFF))
   \<and> push_bit 16 (999 AND 0xFF) = (0xE70000 :: 32 word)
   \<and> (list_all (\<lambda>e. fst e \<noteq> ''version'') properties
        \<longrightarrow> ComputeBrokerVersion properties = Inr 0)"
proof -
  have general: "ComputeBrokerVersion (pre @ (''version'', v) # post) =
          Inr ((push_bit 16 (version_major AND 0xFF) OR push_bit 8 (version_minor AND 0xFF))
                 OR (version_patch AND 0xFF))"
    if "list_all (\<lambda>e. fst e \<noteq> ''version'') pre" and "value_bytes v = Some s"
      and "boost_split (is_any_of ''.'') s = [a, b, c]"
      and "lexical_cast_uint32 a = Inr version_major"
      and "lexical_cast_uint32 b = Inr version_minor"
      and "lexical_cast_uint32 c = Inr version_patch"
    using that by (simp add: ComputeBrokerVersion_three [of pre v s a b c post]
        pack_version_def)
  have mask: "push_bit 16 (999 AND 0xFF) = (0xE70000 :: 32 word)"
    by simp
  show ?thesis
    using general mask ComputeBrokerVersion_3_8_2 ComputeBrokerVersion_3_8_2_1
      ComputeBrokerVersion_999_0_0 ComputeBrokerVersion_absent [of properties]
    by simp
qed

text \<open>
  The packing at a table of three entries, and a key that differs from \<open>version\<close>
  only in the case of its first letter.
\<close>

theorem ComputeBrokerVersion_packing_witness:
  "list_all (\<lambda>e. fst e \<noteq> ''version'') [(''product'', FieldUtf8 ''RabbitMQ'')]
   \<and> value_bytes (FieldUtf8 ''3.8.2'') = Some ''3.8.2''
   \<and> boost_split (is_any_of ''.'') ''3.8.2'' = [''3'', ''8'', ''2'']
   \<and> lexical_cast_uint32 ''3'' = Inr 3
   \<and> lexical_cast_uint32 ''8'' = Inr 8
   \<and> lexical_cast_uint32 ''2'' = Inr 2
   \<and> ComputeBrokerVersion
        [(''product'', FieldUtf8 ''RabbitMQ''), (''version'', FieldUtf8 ''3.8.2''),
         (''platform'', FieldUtf8 ''Erlang'')] = Inr 0x030802
   \<and> list_all (\<lambda>e. fst e \<noteq> ''version'') [(''Version'', FieldUtf8 ''3.8.2'')]
   \<and> ComputeBrokerVersion [(''Version'', FieldUtf8 ''3.8.2'')] = Inr 0"
  using ComputeBrokerVersion_packing [of "[(''product'', FieldUtf8 ''RabbitMQ'')]"
      "FieldUtf8 ''3.8.2''" "''3.8.2''" "''3''" "''8''" "''2''" 3 8 2
      "[(''platform'', FieldUtf8 ''Erlang'')]" "[(''Version'', FieldUtf8 ''3.8.2'')]"]
  unfolding boost_split_3_8_2
  by (simp add: lexical_cast_3 lexical_cast_8 lexical_cast_2)

text \<open>
  Claim C1 as stated fails: a version string of three components of which one is not a
  number makes \<open>boost::lexical_cast\<close> throw, and nothing in \<open>ComputeBrokerVersion\<close>
  catches it.
\<close>

theorem ComputeBrokerVersion_non_numeric_counterexample:
  "ComputeBrokerVersion [(''version'', FieldUtf8 ''3.x.2'')] = Inl BadLexicalCast"
  using ComputeBrokerVersion_three [of "[]" "FieldUtf8 ''3.x.2''" "''3.x.2''" _ _ _ "[]",
      OF _ _ boost_split_3_x_2]
  by (simp add: lexical_cast_3 lexical_cast_x)

text \<open>
  Claim C1, amended. Let the first entry with the key \<open>version\<close> hold a byte string.
  The string has one component more than it has dots. When the number of components is
  not three (one, two, four or more) \<open>ComputeBrokerVersion\<close> returns 0 and throws
  nothing. When it is three and a component is not accepted by \<open>lexical_cast\<close>,
  \<open>ComputeBrokerVersion\<close> throws \<open>bad_lexical_cast\<close> instead of returning 0.
\<close>

theorem ComputeBrokerVersion_malformed:
  assumes "list_all (\<lambda>e. fst e \<noteq> ''version'') pre" and "value_bytes v = Some s"
  shows "length (boost_split (is_any_of ''.'') s) = Suc (length (filter (\<lambda>c. c = CHR ''.'') s))
    \<and> (length (boost_split (is_any_of ''.'') s) \<noteq> 3
         \<longrightarrow> ComputeBrokerVersion (pre @ (''version'', v) # post) = Inr 0)
    \<and> (length (boost_split (is_any_of ''.'') s) = 3
         \<and> list_ex (\<lambda>c. lexical_cast_uint32 c = Inl BadLexicalCast)
              (boost_split (is_any_of ''.'') s)
         \<longrightarrow> ComputeBrokerVersion (pre @ (''version'', v) # post) = Inl BadLexicalCast)"
proof (intro conjI impI)
  have "is_any_of ''.'' = (\<lambda>c. c = CHR ''.'')"
    by (auto simp: is_any_of_def fun_eq_iff)
  then show "length (boost_split (is_any_of ''.'') s) = Suc (length (filter (\<lambda>c. c = CHR ''.'') s))"
    by (simp add: length_boost_split)
next
  assume "length (boost_split (is_any_of ''.'') s) \<noteq> 3"
  then show "ComputeBrokerVersion (pre @ (''version'', v) # post) = Inr 0"
    using assms by (simp add: ComputeBrokerVersion_not_three)
next
  let ?cs = "boost_split (is_any_of ''.'') s"
  assume h: "length ?cs = 3 \<and> list_ex (\<lambda>c. lexical_cast_uint32 c = Inl BadLexicalCast) ?cs"
  then obtain a b c where cs: "?cs = [a, b, c]"
    by (cases ?cs; simp; rename_tac x xs; case_tac xs; simp; rename_tac y ys; case_tac ys; simp)
  with h have bad: "lexical_cast_uint32 a = Inl BadLexicalCast
      \<or> lexical_cast_uint32 b = Inl BadLexicalCast \<or> lexical_cast_uint32 c = Inl BadLexicalCast"
    by simp
  have eq: "ComputeBrokerVersion (pre @ (''version'', v) # post) =
      (case lexical_cast_uint32 a of Inl e \<Rightarrow> Inl e
        | Inr ma \<Rightarrow> (case lexical_cast_uint32 b of Inl e \<Rightarrow> Inl e
        | Inr mi \<Rightarrow> (case lexical_cast_uint32 c of Inl e \<Rightarrow> Inl e
        | Inr pa \<Rightarrow> Inr (pack_version ma mi pa))))"
    using assms cs by (rule ComputeBrokerVersion_three)
  show "ComputeBrokerVersion (pre @ (''version'', v) # post) = Inl BadLexicalCast"
    using bad lexical_cast_uint32_cases [of a] lexical_cast_uint32_cases [of b]
      lexical_cast_uint32_cases [of c]
    unfolding eq by (auto split: sum.splits)
qed

text \<open>
  Both branches at concrete tables: four components, and three with a letter.
\<close>

theorem ComputeBrokerVersion_malformed_witness:
  "list_all (\<lambda>e. fst e \<noteq> ''version'') [(''product'', FieldUtf8 ''RabbitMQ'')]
   \<and> value_bytes (FieldUtf8 ''3.8.2.1'') = Some ''3.8.2.1''
   \<and> length (boost_split (is_any_of ''.'') ''3.8.2.1'') \<noteq> 3
   \<and> ComputeBrokerVersion
        [(''product'', FieldUtf8 ''RabbitMQ''), (''version'', FieldUtf8 ''3.8.2.1'')] = Inr 0
   \<and> value_bytes (FieldUtf8 ''3.x.2'') = Some ''3.x.2''
   \<and> length (boost_split (is_any_of ''.'') ''3.x.2'') = 3
   \<and> list_ex (\<lambda>c. lexical_cast_uint32 c = Inl BadLexicalCast)
        (boost_split (is_any_of ''.'') ''3.x.2'')
   \<and> ComputeBrokerVersion
        [(''product'', FieldUtf8 ''RabbitMQ''), (''version'', FieldUtf8 ''3.x.2'')]
        = Inl BadLexicalCast"
  using ComputeBrokerVersion_malformed [of "[(''product'', FieldUtf8 ''RabbitMQ'')]"
      "FieldUtf8 ''3.8.2.1''" "''3.8.2.1''" "[]"]
    ComputeBrokerVersion_malformed [of "[(''product'', FieldUtf8 ''RabbitMQ'')]"
      "FieldUtf8 ''3.x.2''" "''3.x.2''" "[]"]
  unfolding boost_split_3_8_2_1 boost_split_3_x_2
  by (simp add: lexical_cast_x)

section \<open>Facts about the reply check\<close>

text \<open>
  Claim C5. \<open>CheckRpcReply\<close> returns normally exactly when the reply type is
  \<open>AMQP_RESPONSE_NORMAL\<close>. A library-exception reply throws what
  \<open>AmqpResponseLibraryException::CreateException\<close> makes of the reply. A
  server-exception reply, and every reply type that is neither normal nor a library
  exception, throws what \<open>AmqpException::Throw\<close> makes of the reply: an unknown reply
  type is never taken for success.
\<close>

theorem CheckRpcReply_classifies:
  "(CheckRpcReply reply = Inr () \<longleftrightarrow> reply_type reply = AMQP_RESPONSE_NORMAL)
   \<and> (reply_type reply = AMQP_RESPONSE_LIBRARY_EXCEPTION
        \<longrightarrow> CheckRpcReply reply = Inl (AmqpResponseLibraryException reply []))
   \<and> (reply_type reply = AMQP_RESPONSE_SERVER_EXCEPTION
        \<longrightarrow> CheckRpcReply reply = Inl (AmqpException reply))
   \<and> (reply_type reply \<noteq> AMQP_RESPONSE_NORMAL
        \<and> reply_type reply \<noteq> AMQP_RESPONSE_LIBRARY_EXCEPTION
        \<longrightarrow> CheckRpcReply reply = Inl (AmqpException reply))"
  by (simp add: CheckRpcReply_def AmqpException_Throw_def AMQP_RESPONSE_NORMAL_def
      AMQP_RESPONSE_LIBRARY_EXCEPTION_def AMQP_RESPONSE_SERVER_EXCEPTION_def)

text \<open>
  The four enumerators and a value outside the enumeration.
\<close>

theorem CheckRpcReply_classifies_witness:
  "CheckRpcReply \<lparr>reply_type = 1, reply_id = 0, reply_decoded = [], library_error = 0\<rparr> = Inr ()
   \<and> CheckRpcReply \<lparr>reply_type = 2, reply_id = 0, reply_decoded = [], library_error = - 7\<rparr>
       = Inl (AmqpResponseLibraryException
               \<lparr>reply_type = 2, reply_id = 0, reply_decoded = [], library_error = - 7\<rparr> [])
   \<and> CheckRpcReply \<lparr>reply_type = 3, reply_id = 0x000A0032, reply_decoded = [], library_error = 0\<rparr>
       = Inl (AmqpException
               \<lparr>reply_type = 3, reply_id = 0x000A0032, reply_decoded = [], library_error = 0\<rparr>)
   \<and> CheckRpcReply \<lparr>reply_type = 0, reply_id = 0, reply_decoded = [], library_error = 0\<rparr>
       = Inl (AmqpException
               \<lparr>reply_type = 0, reply_id = 0, reply_decoded = [], library_error = 0\<rparr>)
   \<and> CheckRpcReply \<lparr>reply_type = 7, reply_id = 0, reply_decoded = [], library_error = 0\<rparr>
       = Inl (AmqpException
               \<lparr>reply_type = 7, reply_id = 0, reply_decoded = [], library_error = 0\<rparr>)"
  using
    CheckRpcReply_classifies [of "\<lparr>reply_type = 1, reply_id = 0, reply_decoded = [], library_error = 0\<rparr>"]
    CheckRpcReply_classifies [of "\<lparr>reply_type = 2, reply_id = 0, reply_decoded = [], library_error = - 7\<rparr>"]
    CheckRpcReply_classifies [of "\<lparr>reply_type = 3, reply_id = 0x000A0032, reply_decoded = [], library_error = 0\<rparr>"]
    CheckRpcReply_classifies [of "\<lparr>reply_type = 0, reply_id = 0, reply_decoded = [], library_error = 0\<rparr>"]
    CheckRpcReply_classifies [of "\<lparr>reply_type = 7, reply_id = 0, reply_decoded = [], library_error = 0\<rparr>"]
  by (simp add: AMQP_RESPONSE_NORMAL_def
      AMQP_RESPONSE_LIBRARY_EXCEPTION_def AMQP_RESPONSE_SERVER_EXCEPTION_def)

section \<open>Facts about the secure entry points\<close>

text \<open>
  Claim C7. Compiled without \<open>SAC_SSL_SUPPORT_ENABLED\<close>, the constructor taking
  \<open>SSLConnectionParams\<close> throws \<open>logic_error\<close> with the message that SSL support has
  not been compiled in, whatever its arguments and whatever the library would answer; it
  makes no call on a connection or a socket, so it neither does network I/O nor falls
  back to a plain connection. \<open>CreateSecure\<close>, which only calls that constructor, does
  the same.
\<close>

theorem secure_constructor_without_ssl_support:
  assumes "\<not> SAC_SSL_SUPPORT_ENABLED cfg"
  shows "Connection_ctor_ssl cfg lib host port username password vhost frame_max ssl_params =
           (Inl (LogicError ''SSL support has not been compiled into SimpleAmqpClient''), [])
     \<and> CreateSecure cfg lib ca_cert host client_key client_cert port username password vhost
           frame_max verify =
           (Inl (LogicError ''SSL support has not been compiled into SimpleAmqpClient''), [])"
  using assms by (simp add: Connection_ctor_ssl_def CreateSecure_def)

text \<open>
  A build without TLS against the library in which everything would succeed.
\<close>

theorem secure_constructor_without_ssl_support_witness:
  "\<not> SAC_SSL_SUPPORT_ENABLED plain_build
   \<and> Connection_ctor_ssl plain_build accepting_library ''broker.example'' 5671 ''guest''
        ''guest'' ''/'' 131072
        \<lparr>path_to_ca_cert = ''ca.pem'', path_to_client_key = ''key.pem'',
         path_to_client_cert = ''cert.pem'', verify_hostname = True\<rparr> =
        (Inl (LogicError ''SSL support has not been compiled into SimpleAmqpClient''), [])"
  using secure_constructor_without_ssl_support [of plain_build accepting_library
      "''broker.example''" 5671 "''guest''" "''guest''" "''/''" 131072
      "\<lparr>path_to_ca_cert = ''ca.pem'', path_to_client_key = ''key.pem'',
        path_to_client_cert = ''cert.pem'', verify_hostname = True\<rparr>"]
  by (simp add: plain_build_def)

text \<open>
  Claim C6. When the URI parses and its \<open>ssl\<close> flag is not set,
  \<open>CreateSecureFromUri\<close> throws \<open>runtime_error\<close> with the message
  \<open>CreateSecureFromUri only supports SSL-enabled URIs.\<close> and has made no call on a
  connection or a socket: no socket is opened and the secure constructor is not entered.
\<close>

theorem CreateSecureFromUri_rejects_plain_uri:
  assumes "lib_parse_url lib uri (lib_default_connection_info lib) = (0, info)"
    and "info_ssl info = 0"
  shows "CreateSecureFromUri cfg lib uri ca_cert client_key client_cert verify frame_max =
           (Inl (RuntimeError ''CreateSecureFromUri only supports SSL-enabled URIs.''), [])"
  using assms by (simp add: CreateSecureFromUri_def)

lemma sample_parse_amqp:
  "sample_parse_url ''amqp://broker.example'' default_connection_info =
     (0, default_connection_info\<lparr>info_host := ''broker.example''\<rparr>)"
  by (simp add: sample_parse_url_def)

lemma sample_parse_amqps:
  "sample_parse_url ''amqps://broker.example'' default_connection_info =
     (0, default_connection_info\<lparr>info_host := ''broker.example'', info_port := 5671,
           info_ssl := 1\<rparr>)"
  by (simp add: sample_parse_url_def)

text \<open>
  A plain \<open>amqp://\<close> URI in a build with TLS.
\<close>

theorem CreateSecureFromUri_rejects_plain_uri_witness:
  "lib_parse_url accepting_library ''amqp://broker.example''
       (lib_default_connection_info accepting_library) =
     (0, default_connection_info\<lparr>info_host := ''broker.example''\<rparr>)
   \<and> info_ssl (default_connection_info\<lparr>info_host := ''broker.example''\<rparr>) = 0
   \<and> CreateSecureFromUri tls_build accepting_library ''amqp://broker.example'' ''ca.pem'' [] []
         True 131072 =
         (Inl (RuntimeError ''CreateSecureFromUri only supports SSL-enabled URIs.''), [])"
  using CreateSecureFromUri_rejects_plain_uri [of accepting_library "''amqp://broker.example''"
      "default_connection_info\<lparr>info_host := ''broker.example''\<rparr>" tls_build "''ca.pem''" "[]" "[]"
      True 131072]
  by (simp add: accepting_library_def sample_parse_amqp) (simp add: default_connection_info_def)


section \<open>Facts about the login\<close>

lemma DoLogin_calls:
  "snd (DoLogin lib self username password vhost frame_max) =
       [login_call vhost frame_max username password]
   \<or> snd (DoLogin lib self username password vhost frame_max) =
       [login_call vhost frame_max username password, Call_amqp_get_server_properties]"
  by (simp add: DoLogin_def login_call_def amqp_cstring_bytes_def BROKER_HEARTBEAT_def Let_def
      split: sum.splits)

lemma DoLogin_accepting:
  "DoLogin accepting_library self username password vhost frame_max =
     (Inr (self\<lparr>m_brokerVersion := Some 0x030802\<rparr>),
      [login_call vhost frame_max username password, Call_amqp_get_server_properties])"
proof -
  have "ComputeBrokerVersion (lib_get_server_properties accepting_library) = Inr 0x030802"
    using ComputeBrokerVersion_three [of "[(''product'', FieldUtf8 ''RabbitMQ'')]"
        "FieldUtf8 ''3.8.2''" "''3.8.2''" _ _ _ "[]", OF _ _ boost_split_3_8_2]
    by (simp add: accepting_library_def lexical_cast_3 lexical_cast_8 lexical_cast_2
        pack_version_3_8_2)
  moreover have "CheckRpcReply (lib_login_with_properties accepting_library vhost 0 frame_max
      BROKER_HEARTBEAT [(''capabilities'', FieldTable [(''consumer_cancel_notify'', FieldBoolean 1)])]
      AMQP_SASL_METHOD_PLAIN [username, password]) = Inr ()"
    by (simp add: accepting_library_def normal_reply_def CheckRpcReply_def)
  ultimately show ?thesis
    by (simp add: DoLogin_def login_call_def amqp_cstring_bytes_def BROKER_HEARTBEAT_def Let_def)
qed

text \<open>
  Claim C8. The client-properties table handed to the login does not depend on the
  library, the connection or any parameter: it always has the single top-level entry
  \<open>capabilities\<close>, whose value is a table with the single entry
  \<open>consumer_cancel_notify\<close> of kind boolean and value 1 (true).
\<close>

theorem DoLogin_client_properties:
  "List.map_filter login_properties (snd (DoLogin lib self username password vhost frame_max)) =
     [[(''capabilities'', FieldTable [(''consumer_cancel_notify'', FieldBoolean 1)])]]"
  using DoLogin_calls [of lib self username password vhost frame_max]
  by (auto simp: login_call_def List.map_filter_simps)

text \<open>
  The table in the trace of a login the broker accepts.
\<close>

theorem DoLogin_client_properties_witness:
  "List.map_filter login_properties
     (snd (DoLogin accepting_library
             \<lparr>m_connection = True, m_is_connected = False, m_brokerVersion = None\<rparr>
             ''guest'' ''guest'' ''/'' 131072)) =
     [[(''capabilities'', FieldTable [(''consumer_cancel_notify'', FieldBoolean 1)])]]
   \<and> snd (DoLogin accepting_library
             \<lparr>m_connection = True, m_is_connected = False, m_brokerVersion = None\<rparr>
             ''guest'' ''guest'' ''/'' 131072) =
       [Call_amqp_login_with_properties ''/'' 0 131072 0
          [(''capabilities'', FieldTable [(''consumer_cancel_notify'', FieldBoolean 1)])]
          AMQP_SASL_METHOD_PLAIN [''guest'', ''guest''],
        Call_amqp_get_server_properties]"
  using DoLogin_client_properties [of accepting_library
      "\<lparr>m_connection = True, m_is_connected = False, m_brokerVersion = None\<rparr>"
      "''guest''" "''guest''" "''/''" 131072]
  by (simp add: DoLogin_accepting login_call_def)

text \<open>
  Claim C9. For every user name, password, virtual host and frame-max, \<open>DoLogin\<close>
  makes exactly one login call, and makes it first: it passes the given virtual host,
  channel-max 0, the given frame-max, heartbeat 0, the client-properties table, the
  SASL mechanism PLAIN, and the given user name and password.
\<close>

theorem DoLogin_single_login_call:
  "filter is_login_call (snd (DoLogin lib self username password vhost frame_max)) =
     [Call_amqp_login_with_properties vhost 0 frame_max 0
        [(''capabilities'', FieldTable [(''consumer_cancel_notify'', FieldBoolean 1)])]
        AMQP_SASL_METHOD_PLAIN [username, password]]
   \<and> hd (snd (DoLogin lib self username password vhost frame_max)) =
       Call_amqp_login_with_properties vhost 0 frame_max 0
        [(''capabilities'', FieldTable [(''consumer_cancel_notify'', FieldBoolean 1)])]
        AMQP_SASL_METHOD_PLAIN [username, password]"
  using DoLogin_calls [of lib self username password vhost frame_max]
  by (auto simp: login_call_def)

text \<open>
  A login with parameters that are not the defaults.
\<close>

theorem DoLogin_single_login_call_witness:
  "filter is_login_call
     (snd (DoLogin accepting_library
             \<lparr>m_connection = True, m_is_connected = False, m_brokerVersion = None\<rparr>
             ''alice'' ''secret'' ''/prod'' 4096)) =
     [Call_amqp_login_with_properties ''/prod'' 0 4096 0
        [(''capabilities'', FieldTable [(''consumer_cancel_notify'', FieldBoolean 1)])]
        AMQP_SASL_METHOD_PLAIN [''alice'', ''secret'']]
   \<and> fst (DoLogin accepting_library
             \<lparr>m_connection = True, m_is_connected = False, m_brokerVersion = None\<rparr>
             ''alice'' ''secret'' ''/prod'' 4096) =
       Inr \<lparr>m_connection = True, m_is_connected = False, m_brokerVersion = Some 0x030802\<rparr>"
  using DoLogin_single_login_call [of accepting_library
      "\<lparr>m_connection = True, m_is_connected = False, m_brokerVersion = None\<rparr>"
      "''alice''" "''secret''" "''/prod''" 4096]
  by (simp add: DoLogin_accepting)


section \<open>Facts about the plain constructor and CreateFromUri\<close>

lemma DoLogin_no_ssl_call:
  "list_all (\<lambda>c. \<not> is_ssl_call c) (snd (DoLogin lib self username password vhost frame_max))"
  using DoLogin_calls [of lib self username password vhost frame_max]
  by (auto simp: login_call_def)

lemma Connection_try_calls:
  "\<exists>rest. snd (Connection_try lib self host port username password vhost frame_max) =
      Call_amqp_tcp_socket_new # Call_amqp_socket_open (lib_tcp_socket_new lib) host port # rest
    \<and> list_all (\<lambda>c. \<not> is_ssl_call c) rest"
  using DoLogin_no_ssl_call [of lib self username password vhost frame_max]
  by (auto simp: Connection_try_def Let_def split: sum.splits prod.splits)

lemma Connection_ctor_calls:
  assumes "lib_new_connection lib"
  shows "\<exists>rest. snd (Connection_ctor lib host port username password vhost frame_max) =
      Call_amqp_new_connection # Call_amqp_tcp_socket_new
        # Call_amqp_socket_open (lib_tcp_socket_new lib) host port # rest
    \<and> list_all (\<lambda>c. \<not> is_ssl_call c) rest"
proof -
  let ?self = "\<lparr>m_connection = True, m_is_connected = False, m_brokerVersion = None\<rparr>"
  obtain rest where rest:
    "snd (Connection_try lib ?self host port username password vhost frame_max) =
      Call_amqp_tcp_socket_new # Call_amqp_socket_open (lib_tcp_socket_new lib) host port # rest"
    "list_all (\<lambda>c. \<not> is_ssl_call c) rest"
    using Connection_try_calls [of lib ?self host port username password vhost frame_max]
    by blast
  obtain r calls where body:
    "Connection_try lib ?self host port username password vhost frame_max = (r, calls)"
    by (cases "Connection_try lib ?self host port username password vhost frame_max")
  with rest have calls:
    "calls = Call_amqp_tcp_socket_new
       # Call_amqp_socket_open (lib_tcp_socket_new lib) host port # rest"
    by simp
  show ?thesis
    using assms body calls rest(2)
    by (cases r) (simp_all add: Connection_ctor_def)
qed

lemma Connection_ctor_no_ssl_call:
  "list_all (\<lambda>c. \<not> is_ssl_call c)
     (snd (Connection_ctor lib host port username password vhost frame_max))"
proof (cases "lib_new_connection lib")
  case True
  from Connection_ctor_calls [OF True, of host port username password vhost frame_max]
  show ?thesis by auto
next
  case False
  then show ?thesis by (simp add: Connection_ctor_def)
qed

lemma Connection_ctor_accepting:
  "Connection_ctor accepting_library host port username password vhost frame_max =
     (Inr \<lparr>m_connection = True, m_is_connected = True, m_brokerVersion = Some 0x030802\<rparr>,
      [Call_amqp_new_connection, Call_amqp_tcp_socket_new, Call_amqp_socket_open True host port,
       login_call vhost frame_max username password, Call_amqp_get_server_properties])"
proof -
  have lib: "lib_new_connection accepting_library" "lib_tcp_socket_new accepting_library"
    "lib_socket_open accepting_library True host port = 0"
    by (simp_all add: accepting_library_def)
  show ?thesis
    by (simp add: Connection_ctor_def Connection_try_def lib CheckForError_def
        DoLogin_accepting SetIsConnected_def)
qed

text \<open>
  Claim C10. For every URI the parser accepts, \<open>CreateFromUri\<close> is the plain
  constructor on the parsed host, port, user, password and virtual host; the \<open>ssl\<close>
  flag of the parsed URI is not read. No call of the trace concerns a TLS socket, and
  once the connection is allocated the first calls create a TCP socket and open it to the
  parsed host and port.
\<close>

theorem CreateFromUri_ignores_ssl_flag:
  assumes "lib_parse_url lib uri (lib_default_connection_info lib) = (0, info)"
  shows "CreateFromUri lib uri frame_max =
           Connection_ctor lib (info_host info) (info_port info) (info_user info)
             (info_password info) (info_vhost info) frame_max
     \<and> list_all (\<lambda>c. \<not> is_ssl_call c) (snd (CreateFromUri lib uri frame_max))
     \<and> (lib_new_connection lib \<longrightarrow>
          take 3 (snd (CreateFromUri lib uri frame_max)) =
            [Call_amqp_new_connection, Call_amqp_tcp_socket_new,
             Call_amqp_socket_open (lib_tcp_socket_new lib) (info_host info) (info_port info)])"
proof -
  have eq: "CreateFromUri lib uri frame_max =
           Connection_ctor lib (info_host info) (info_port info) (info_user info)
             (info_password info) (info_vhost info) frame_max"
    using assms by (simp add: CreateFromUri_def Create_def)
  have first: "take 3 (snd (Connection_ctor lib (info_host info) (info_port info)
             (info_user info) (info_password info) (info_vhost info) frame_max)) =
            [Call_amqp_new_connection, Call_amqp_tcp_socket_new,
             Call_amqp_socket_open (lib_tcp_socket_new lib) (info_host info) (info_port info)]"
    if "lib_new_connection lib"
    using Connection_ctor_calls [OF that, of "info_host info" "info_port info" "info_user info"
        "info_password info" "info_vhost info" frame_max]
    by auto
  show ?thesis
    unfolding eq using first Connection_ctor_no_ssl_call by simp
qed

text \<open>
  An \<open>amqps://\<close> URI, whose parse sets the \<open>ssl\<close> flag, gives a connected plain
  connection to port 5671.
\<close>

theorem CreateFromUri_ignores_ssl_flag_witness:
  "lib_parse_url accepting_library ''amqps://broker.example''
       (lib_default_connection_info accepting_library) =
     (0, \<lparr>info_user = ''guest'', info_password = ''guest'', info_host = ''broker.example'',
          info_vhost = ''/'', info_port = 5671, info_ssl = 1\<rparr>)
   \<and> CreateFromUri accepting_library ''amqps://broker.example'' 131072 =
     (Inr \<lparr>m_connection = True, m_is_connected = True, m_brokerVersion = Some 0x030802\<rparr>,
      [Call_amqp_new_connection, Call_amqp_tcp_socket_new,
       Call_amqp_socket_open True ''broker.example'' 5671,
       Call_amqp_login_with_properties ''/'' 0 131072 0
         [(''capabilities'', FieldTable [(''consumer_cancel_notify'', FieldBoolean 1)])]
         AMQP_SASL_METHOD_PLAIN [''guest'', ''guest''],
       Call_amqp_get_server_properties])"
proof -
  have parse: "lib_parse_url accepting_library ''amqps://broker.example''
       (lib_default_connection_info accepting_library) =
     (0, \<lparr>info_user = ''guest'', info_password = ''guest'', info_host = ''broker.example'',
          info_vhost = ''/'', info_port = 5671, info_ssl = 1\<rparr>)"
    by (simp add: accepting_library_def sample_parse_amqps) (simp add: default_connection_info_def)
  from CreateFromUri_ignores_ssl_flag [OF parse, of 131072] parse
  show ?thesis
    by (simp add: Connection_ctor_accepting login_call_def)
qed


section \<open>Facts about the constructor taking SSLConnectionParams\<close>

lemma DoLogin_no_set_key_call:
  "list_all (\<lambda>c. \<not> is_set_key_call c)
     (snd (DoLogin lib self username password vhost frame_max))"
  using DoLogin_calls [of lib self username password vhost frame_max]
  by (auto simp: login_call_def)

lemma Connection_ssl_open_calls:
  "\<exists>rest. snd (Connection_ssl_open lib self host port username password vhost frame_max) =
      Call_amqp_socket_open True host port # rest
    \<and> list_all (\<lambda>c. \<not> is_set_key_call c) rest"
  using DoLogin_no_set_key_call [of lib self username password vhost frame_max]
  by (auto simp: Connection_ssl_open_def Let_def split: prod.splits)

lemma Connection_ssl_try_one_path_empty:
  assumes "path_to_client_key ssl_params = [] \<or> path_to_client_cert ssl_params = []"
  shows "Connection_ssl_try lib self host port username password vhost frame_max ssl_params =
     (if lib_ssl_socket_set_cacert lib (path_to_ca_cert ssl_params) \<noteq> 0
      then (Inl (AmqpLibraryException (lib_ssl_socket_set_cacert lib (path_to_ca_cert ssl_params))
                   ''Error setting CA certificate for socket''),
            [Call_amqp_ssl_socket_set_cacert (path_to_ca_cert ssl_params)])
      else (fst (Connection_ssl_open lib self host port username password vhost frame_max),
            Call_amqp_ssl_socket_set_cacert (path_to_ca_cert ssl_params)
              # snd (Connection_ssl_open lib self host port username password vhost frame_max)))"
  using assms by (auto simp: Connection_ssl_try_def Let_def split: prod.splits)

lemma Connection_ssl_try_both_paths:
  assumes "path_to_client_key ssl_params \<noteq> []" and "path_to_client_cert ssl_params \<noteq> []"
    and "lib_ssl_socket_set_cacert lib (path_to_ca_cert ssl_params) = 0"
  shows "\<exists>rest. snd (Connection_ssl_try lib self host port username password vhost frame_max
                       ssl_params) =
      Call_amqp_ssl_socket_set_cacert (path_to_ca_cert ssl_params)
        # Call_amqp_ssl_socket_set_key (path_to_client_cert ssl_params)
            (path_to_client_key ssl_params) # rest"
  using assms by (auto simp: Connection_ssl_try_def Let_def split: prod.splits)

lemma set_verify_calls_no_set_key:
  "list_all (\<lambda>c. \<not> is_set_key_call c) (set_verify_calls cfg ssl_params)"
  by (simp add: set_verify_calls_def)

lemma Connection_ctor_ssl_calls:
  assumes "SAC_SSL_SUPPORT_ENABLED cfg" and "lib_new_connection lib" and "lib_ssl_socket_new lib"
  shows "snd (Connection_ctor_ssl cfg lib host port username password vhost frame_max ssl_params) =
     Call_amqp_new_connection # Call_amqp_ssl_socket_new # set_verify_calls cfg ssl_params
       @ snd (Connection_ssl_try lib
                \<lparr>m_connection = True, m_is_connected = False, m_brokerVersion = None\<rparr>
                host port username password vhost frame_max ssl_params)
       @ (case fst (Connection_ssl_try lib
                \<lparr>m_connection = True, m_is_connected = False, m_brokerVersion = None\<rparr>
                host port username password vhost frame_max ssl_params) of
            Inl e \<Rightarrow> [Call_amqp_destroy_connection] | Inr c \<Rightarrow> [])"
  using assms by (auto simp: Connection_ctor_ssl_def Let_def split: prod.splits sum.splits)

text \<open>
  Claim C2 as stated fails: with a client key and no client certificate the constructor
  does not fail. It leaves the key out, opens the socket, logs in and returns a
  connected object.
\<close>

theorem client_key_without_certificate_counterexample:
  "Connection_ctor_ssl tls_build accepting_library ''broker.example'' 5671 ''guest'' ''guest''
     ''/'' 131072
     \<lparr>path_to_ca_cert = ''ca.pem'', path_to_client_key = ''key.pem'',
      path_to_client_cert = [], verify_hostname = True\<rparr> =
   (Inr \<lparr>m_connection = True, m_is_connected = True, m_brokerVersion = Some 0x030802\<rparr>,
    [Call_amqp_new_connection, Call_amqp_ssl_socket_new,
     Call_amqp_ssl_socket_set_verify_peer True, Call_amqp_ssl_socket_set_verify_hostname True,
     Call_amqp_ssl_socket_set_cacert ''ca.pem'',
     Call_amqp_socket_open True ''broker.example'' 5671,
     Call_amqp_login_with_properties ''/'' 0 131072 0
       [(''capabilities'', FieldTable [(''consumer_cancel_notify'', FieldBoolean 1)])]
       AMQP_SASL_METHOD_PLAIN [''guest'', ''guest''],
     Call_amqp_get_server_properties])"
proof -
  have lib: "lib_new_connection accepting_library" "lib_ssl_socket_new accepting_library"
    "lib_ssl_socket_set_cacert accepting_library ''ca.pem'' = 0"
    "lib_socket_open accepting_library True ''broker.example'' 5671 = 0"
    by (simp_all add: accepting_library_def)
  show ?thesis
    by (simp add: Connection_ctor_ssl_def tls_build_def lib set_verify_calls_def
        Connection_ssl_try_def Connection_ssl_open_def DoLogin_accepting login_call_def
        SetIsConnected_def)
qed

text \<open>
  Claim C2, amended. The constructor does not reject a configuration in which one of
  \<open>path_to_client_key\<close> and \<open>path_to_client_cert\<close> is empty: it then behaves exactly
  as if both were empty, does not call \<open>amqp_ssl_socket_set_key\<close>, and, once the
  connection and the socket are allocated and the CA certificate is set, goes on to open
  the socket. The client certificate and key are loaded only when both paths are
  non-empty.
\<close>

theorem client_certificate_only_with_both_paths:
  "(path_to_client_key ssl_params = [] \<or> path_to_client_cert ssl_params = [] \<longrightarrow>
      Connection_ctor_ssl cfg lib host port username password vhost frame_max ssl_params =
        Connection_ctor_ssl cfg lib host port username password vhost frame_max
          (ssl_params\<lparr>path_to_client_key := [], path_to_client_cert := []\<rparr>)
      \<and> list_all (\<lambda>c. \<not> is_set_key_call c)
           (snd (Connection_ctor_ssl cfg lib host port username password vhost frame_max
                   ssl_params))
      \<and> (SAC_SSL_SUPPORT_ENABLED cfg \<and> lib_new_connection lib \<and> lib_ssl_socket_new lib
           \<and> lib_ssl_socket_set_cacert lib (path_to_ca_cert ssl_params) = 0 \<longrightarrow>
          Call_amqp_socket_open True host port
            \<in> set (snd (Connection_ctor_ssl cfg lib host port username password vhost frame_max
                         ssl_params))))
   \<and> (path_to_client_key ssl_params \<noteq> [] \<and> path_to_client_cert ssl_params \<noteq> []
        \<and> SAC_SSL_SUPPORT_ENABLED cfg \<and> lib_new_connection lib \<and> lib_ssl_socket_new lib
        \<and> lib_ssl_socket_set_cacert lib (path_to_ca_cert ssl_params) = 0 \<longrightarrow>
        Call_amqp_ssl_socket_set_key (path_to_client_cert ssl_params)
            (path_to_client_key ssl_params)
          \<in> set (snd (Connection_ctor_ssl cfg lib host port username password vhost frame_max
                       ssl_params)))"
proof (intro conjI impI)
  let ?self = "\<lparr>m_connection = True, m_is_connected = False, m_brokerVersion = None\<rparr>"
  let ?none = "ssl_params\<lparr>path_to_client_key := [], path_to_client_cert := []\<rparr>"
  assume one: "path_to_client_key ssl_params = [] \<or> path_to_client_cert ssl_params = []"
  have try_eq: "Connection_ssl_try lib self host port username password vhost frame_max
        ssl_params =
      Connection_ssl_try lib self host port username password vhost frame_max ?none" for self
    using Connection_ssl_try_one_path_empty [OF one]
      Connection_ssl_try_one_path_empty [of ?none]
    by simp
  have verify_eq: "set_verify_calls cfg ?none = set_verify_calls cfg ssl_params"
    by (simp add: set_verify_calls_def)
  show "Connection_ctor_ssl cfg lib host port username password vhost frame_max ssl_params =
        Connection_ctor_ssl cfg lib host port username password vhost frame_max ?none"
    unfolding Connection_ctor_ssl_def verify_eq try_eq [symmetric] ..
  obtain rest where rest:
    "snd (Connection_ssl_open lib ?self host port username password vhost frame_max) =
       Call_amqp_socket_open True host port # rest"
    "list_all (\<lambda>c. \<not> is_set_key_call c) rest"
    using Connection_ssl_open_calls [of lib ?self host port username password vhost frame_max]
    by blast
  have try_no_key: "list_all (\<lambda>c. \<not> is_set_key_call c)
      (snd (Connection_ssl_try lib ?self host port username password vhost frame_max
              ssl_params))"
    using rest by (simp add: Connection_ssl_try_one_path_empty [OF one])
  show "list_all (\<lambda>c. \<not> is_set_key_call c)
           (snd (Connection_ctor_ssl cfg lib host port username password vhost frame_max
                   ssl_params))"
  proof (cases "SAC_SSL_SUPPORT_ENABLED cfg \<and> lib_new_connection lib \<and> lib_ssl_socket_new lib")
    case True
    then show ?thesis
      using try_no_key set_verify_calls_no_set_key [of cfg ssl_params]
      by (simp add: Connection_ctor_ssl_calls split: sum.splits)
  next
    case False
    then show ?thesis
      by (auto simp: Connection_ctor_ssl_def Let_def)
  qed
  assume ok: "SAC_SSL_SUPPORT_ENABLED cfg \<and> lib_new_connection lib \<and> lib_ssl_socket_new lib
           \<and> lib_ssl_socket_set_cacert lib (path_to_ca_cert ssl_params) = 0"
  then show "Call_amqp_socket_open True host port
            \<in> set (snd (Connection_ctor_ssl cfg lib host port username password vhost frame_max
                         ssl_params))"
    using rest(1) by (simp add: Connection_ctor_ssl_calls Connection_ssl_try_one_path_empty [OF one])
next
  assume both: "path_to_client_key ssl_params \<noteq> [] \<and> path_to_client_cert ssl_params \<noteq> []
        \<and> SAC_SSL_SUPPORT_ENABLED cfg \<and> lib_new_connection lib \<and> lib_ssl_socket_new lib
        \<and> lib_ssl_socket_set_cacert lib (path_to_ca_cert ssl_params) = 0"
  then obtain rest where
    "snd (Connection_ssl_try lib
            \<lparr>m_connection = True, m_is_connected = False, m_brokerVersion = None\<rparr>
            host port username password vhost frame_max ssl_params) =
      Call_amqp_ssl_socket_set_cacert (path_to_ca_cert ssl_params)
        # Call_amqp_ssl_socket_set_key (path_to_client_cert ssl_params)
            (path_to_client_key ssl_params) # rest"
    using Connection_ssl_try_both_paths [of ssl_params lib _ host port username password vhost
        frame_max]
    by blast
  with both show "Call_amqp_ssl_socket_set_key (path_to_client_cert ssl_params)
            (path_to_client_key ssl_params)
          \<in> set (snd (Connection_ctor_ssl cfg lib host port username password vhost frame_max
                       ssl_params))"
    by (simp add: Connection_ctor_ssl_calls)
qed


text \<open>
  A key without a certificate, and a key with a certificate.
\<close>

theorem client_certificate_only_with_both_paths_witness:
  "(path_to_client_key \<lparr>path_to_ca_cert = ''ca.pem'', path_to_client_key = ''key.pem'',
        path_to_client_cert = [], verify_hostname = True\<rparr> = []
     \<or> path_to_client_cert \<lparr>path_to_ca_cert = ''ca.pem'', path_to_client_key = ''key.pem'',
        path_to_client_cert = [], verify_hostname = True\<rparr> = [])
   \<and> SAC_SSL_SUPPORT_ENABLED tls_build \<and> lib_new_connection accepting_library
   \<and> lib_ssl_socket_new accepting_library
   \<and> lib_ssl_socket_set_cacert accepting_library ''ca.pem'' = 0
   \<and> Connection_ctor_ssl tls_build accepting_library ''broker.example'' 5671 ''guest''
        ''guest'' ''/'' 131072
        \<lparr>path_to_ca_cert = ''ca.pem'', path_to_client_key = ''key.pem'',
         path_to_client_cert = [], verify_hostname = True\<rparr> =
       Connection_ctor_ssl tls_build accepting_library ''broker.example'' 5671 ''guest''
        ''guest'' ''/'' 131072
        \<lparr>path_to_ca_cert = ''ca.pem'', path_to_client_key = [],
         path_to_client_cert = [], verify_hostname = True\<rparr>
   \<and> Call_amqp_socket_open True ''broker.example'' 5671
       \<in> set (snd (Connection_ctor_ssl tls_build accepting_library ''broker.example'' 5671
                    ''guest'' ''guest'' ''/'' 131072
                    \<lparr>path_to_ca_cert = ''ca.pem'', path_to_client_key = ''key.pem'',
                     path_to_client_cert = [], verify_hostname = True\<rparr>))
   \<and> Call_amqp_ssl_socket_set_key ''cert.pem'' ''key.pem''
       \<in> set (snd (Connection_ctor_ssl tls_build accepting_library ''broker.example'' 5671
                    ''guest'' ''guest'' ''/'' 131072
                    \<lparr>path_to_ca_cert = ''ca.pem'', path_to_client_key = ''key.pem'',
                     path_to_client_cert = ''cert.pem'', verify_hostname = True\<rparr>))"
proof -
  let ?key_only = "\<lparr>path_to_ca_cert = ''ca.pem'', path_to_client_key = ''key.pem'',
          path_to_client_cert = [], verify_hostname = True\<rparr>"
  let ?both = "\<lparr>path_to_ca_cert = ''ca.pem'', path_to_client_key = ''key.pem'',
          path_to_client_cert = ''cert.pem'', verify_hostname = True\<rparr>"
  have lib: "SAC_SSL_SUPPORT_ENABLED tls_build" "lib_new_connection accepting_library"
    "lib_ssl_socket_new accepting_library"
    "lib_ssl_socket_set_cacert accepting_library ''ca.pem'' = 0"
    by (simp_all add: accepting_library_def tls_build_def)
  have one: "path_to_client_key ?key_only = [] \<or> path_to_client_cert ?key_only = []"
    by simp
  have ok: "SAC_SSL_SUPPORT_ENABLED tls_build \<and> lib_new_connection accepting_library
      \<and> lib_ssl_socket_new accepting_library
      \<and> lib_ssl_socket_set_cacert accepting_library (path_to_ca_cert ?key_only) = 0"
    using lib by simp
  have two: "path_to_client_key ?both \<noteq> [] \<and> path_to_client_cert ?both \<noteq> []
      \<and> SAC_SSL_SUPPORT_ENABLED tls_build \<and> lib_new_connection accepting_library
      \<and> lib_ssl_socket_new accepting_library
      \<and> lib_ssl_socket_set_cacert accepting_library (path_to_ca_cert ?both) = 0"
    using lib by simp
  note first = client_certificate_only_with_both_paths [of ?key_only tls_build
      accepting_library "''broker.example''" 5671 "''guest''" "''guest''" "''/''" 131072,
      THEN conjunct1, THEN mp, OF one]
  note second = client_certificate_only_with_both_paths [of ?both tls_build
      accepting_library "''broker.example''" 5671 "''guest''" "''guest''" "''/''" 131072,
      THEN conjunct2, THEN mp, OF two]
  have same: "Connection_ctor_ssl tls_build accepting_library ''broker.example'' 5671 ''guest''
        ''guest'' ''/'' 131072 ?key_only =
       Connection_ctor_ssl tls_build accepting_library ''broker.example'' 5671 ''guest''
        ''guest'' ''/'' 131072
        \<lparr>path_to_ca_cert = ''ca.pem'', path_to_client_key = [],
         path_to_client_cert = [], verify_hostname = True\<rparr>"
    using first [THEN conjunct1] by simp
  have opened: "Call_amqp_socket_open True ''broker.example'' 5671
       \<in> set (snd (Connection_ctor_ssl tls_build accepting_library ''broker.example'' 5671
                    ''guest'' ''guest'' ''/'' 131072 ?key_only))"
    using first [THEN conjunct2, THEN conjunct2, THEN mp, OF ok] .
  have key_set: "Call_amqp_ssl_socket_set_key ''cert.pem'' ''key.pem''
       \<in> set (snd (Connection_ctor_ssl tls_build accepting_library ''broker.example'' 5671
                    ''guest'' ''guest'' ''/'' 131072 ?both))"
    using second by simp
  from one lib same opened key_set show ?thesis
    by blast
qed

text \<open>
  Every exception thrown inside a \<open>try\<close> block is followed by
  \<open>amqp_destroy_connection\<close>, the last call before it leaves the constructor.
\<close>

lemma Connection_ctor_rollback:
  assumes "lib_new_connection lib"
    and "Connection_ctor lib host port username password vhost frame_max = (Inl e, calls)"
  shows "last calls = Call_amqp_destroy_connection"
  using assms
  by (auto simp: Connection_ctor_def Let_def split: prod.splits sum.splits)

lemma Connection_ctor_ssl_rollback_inside_try:
  assumes "SAC_SSL_SUPPORT_ENABLED cfg" and "lib_new_connection lib" and "lib_ssl_socket_new lib"
    and "Connection_ctor_ssl cfg lib host port username password vhost frame_max ssl_params =
           (Inl e, calls)"
  shows "last calls = Call_amqp_destroy_connection"
  using assms
  by (auto simp: Connection_ctor_ssl_def Let_def split: prod.splits sum.splits)

text \<open>
  Claim C3. The claim asks that the allocated connection is destroyed before any
  exception leaves a constructor. In the constructor taking \<open>SSLConnectionParams\<close> the
  check of the new TLS socket stands before the \<open>try\<close> block: when
  \<open>amqp_ssl_socket_new\<close> returns \<open>NULL\<close> the constructor throws \<open>bad_alloc\<close>
  and the connection allocated by \<open>amqp_new_connection\<close> is not destroyed.
\<close>

theorem ssl_socket_allocation_failure_skips_destroy:
  "Connection_ctor_ssl tls_build (accepting_library\<lparr>lib_ssl_socket_new := False\<rparr>)
     ''broker.example'' 5671 ''guest'' ''guest'' ''/'' 131072
     \<lparr>path_to_ca_cert = ''ca.pem'', path_to_client_key = [], path_to_client_cert = [],
      verify_hostname = True\<rparr> =
   (Inl BadAlloc, [Call_amqp_new_connection, Call_amqp_ssl_socket_new])"
  by (simp add: Connection_ctor_ssl_def tls_build_def accepting_library_def)

end
